theory Spec2Isabelle
  imports Main "HOL-Library.Word"
begin

unbundle bit_operations_syntax

section \<open>The stack allocator of \<^verbatim>\<open>C_C++/StackAllocator.h\<close>\<close>

text \<open>
  The header defines one class template, \<^verbatim>\<open>StackAllocator<N, alignment>\<close>: an inline
  array \<^verbatim>\<open>char buffer[N]\<close> and a \<^verbatim>\<open>char *pointer\<close> into it. The embedding
  is for an LP64 platform: \<^verbatim>\<open>std::size_t\<close>, \<^verbatim>\<open>uintptr_t\<close> and the value of a
  \<^verbatim>\<open>char *\<close> are 64-bit words, and pointer arithmetic is the addition of the machine,
  which wraps around.  The template parameters \<^verbatim>\<open>N\<close> and \<^verbatim>\<open>alignment\<close> are the first
  arguments of every member function.
\<close>

type_synonym size_t = "64 word"
type_synonym char_ptr = "64 word"

definition nullptr :: char_ptr where
  "nullptr = 0"

text \<open>
  The object: the address of its member array \<^verbatim>\<open>buffer\<close> (fixed for the life of the
  object, which can be neither copied nor moved) and the member \<^verbatim>\<open>pointer\<close>.
\<close>

record StackAllocator =
  buffer :: char_ptr
  pointer :: char_ptr

text \<open>The constructor, \<^verbatim>\<open>pointer(buffer)\<close>, for an object whose array lies at \<open>b\<close>.\<close>

definition StackAllocator_ctor :: "char_ptr \<Rightarrow> StackAllocator" where
  "StackAllocator_ctor b = \<lparr>buffer = b, pointer = b\<rparr>"

text \<open>\<^verbatim>\<open>size()\<close> and \<^verbatim>\<open>used()\<close>.\<close>

definition size_arena :: "size_t \<Rightarrow> size_t" where
  "size_arena N = N"

definition used :: "StackAllocator \<Rightarrow> size_t" where
  "used s = pointer s - buffer s"

text \<open>\<^verbatim>\<open>return (n + (alignment - 1)) & ~(alignment - 1);\<close>\<close>

definition align_up :: "size_t \<Rightarrow> size_t \<Rightarrow> size_t" where
  "align_up alignment n = (n + (alignment - 1)) AND NOT (alignment - 1)"

text \<open>\<^verbatim>\<open>return (((uintptr_t) (const void *) p & (alignment - 1)) == 0);\<close>\<close>

definition isAligned :: "size_t \<Rightarrow> char_ptr \<Rightarrow> bool" where
  "isAligned alignment p = (p AND (alignment - 1) = 0)"

text \<open>\<^verbatim>\<open>return buffer <= p && p <= buffer + N;\<close>\<close>

definition pointer_in_buffer :: "size_t \<Rightarrow> StackAllocator \<Rightarrow> char_ptr \<Rightarrow> bool" where
  "pointer_in_buffer N s p = (buffer s \<le> p \<and> p \<le> buffer s + N)"


definition allocate ::
  "size_t \<Rightarrow> size_t \<Rightarrow> size_t \<Rightarrow> StackAllocator \<Rightarrow> size_t \<Rightarrow> char_ptr \<times> StackAllocator" where
  "allocate N alignment ReqAlign s n =
     (let aligned_n = align_up alignment n in
      if buffer s - pointer s + N \<ge> aligned_n
      then (let r = pointer s in (r, s\<lparr>pointer := pointer s + aligned_n\<rparr>))
      else (nullptr, s))"

text \<open>\<^verbatim>\<open>deallocate(p, n)\<close>, which is \<^verbatim>\<open>noexcept\<close> and returns nothing.\<close>

definition deallocate ::
  "size_t \<Rightarrow> size_t \<Rightarrow> StackAllocator \<Rightarrow> char_ptr \<Rightarrow> size_t \<Rightarrow> StackAllocator" where
  "deallocate N alignment s p n =
     (if pointer_in_buffer N s p
      then (let n' = align_up alignment n in
            if p + n' = pointer s then s\<lparr>pointer := p\<rparr> else s)
      else s)"

text \<open>\<^verbatim>\<open>getCurrentMarker()\<close> returns \<^verbatim>\<open>pointer\<close> and changes nothing.\<close>

definition getCurrentMarker :: "StackAllocator \<Rightarrow> char_ptr" where
  "getCurrentMarker s = pointer s"

text \<open>\<^verbatim>\<open>reset()\<close>: \<^verbatim>\<open>pointer = buffer\<close>.\<close>

definition reset :: "StackAllocator \<Rightarrow> StackAllocator" where
  "reset s = s\<lparr>pointer := buffer s\<rparr>"

text \<open>
  \<^verbatim>\<open>resetToMarker(p)\<close>.  The standard error stream is modelled by the lines the call
  appends to it: a line is the text written and the pointer printed after it.  The
  output statement stands after the \<^verbatim>\<open>if\<close>, not in an \<^verbatim>\<open>else\<close>.
\<close>

type_synonym cerr_line = "string \<times> char_ptr"

definition resetToMarker ::
  "size_t \<Rightarrow> size_t \<Rightarrow> StackAllocator \<Rightarrow> char_ptr \<Rightarrow> StackAllocator \<times> cerr_line list" where
  "resetToMarker N alignment s p =
     (let s' = (if pointer_in_buffer N s p \<and> isAligned alignment p
                then s\<lparr>pointer := p\<rparr> else s)
      in (s', [(''The pointer provided is not aligned: '', p)]))"


section \<open>Sequences of calls\<close>

text \<open>
  A client drives the object through its public member functions.  One call is an
  \<open>op\<close>; \<open>step\<close> is the object after the call (the returned value dropped) and
  \<open>run\<close> is the object after a list of calls, the first call first.
\<close>

datatype op =
    Allocate size_t size_t
  | Deallocate char_ptr size_t
  | GetCurrentMarker
  | ResetToMarker char_ptr
  | Reset

fun step :: "size_t \<Rightarrow> size_t \<Rightarrow> StackAllocator \<Rightarrow> op \<Rightarrow> StackAllocator" where
  "step N alignment s (Allocate ReqAlign n) = snd (allocate N alignment ReqAlign s n)"
| "step N alignment s (Deallocate p n) = deallocate N alignment s p n"
| "step N alignment s GetCurrentMarker = s"
| "step N alignment s (ResetToMarker p) = fst (resetToMarker N alignment s p)"
| "step N alignment s Reset = reset s"

definition run :: "size_t \<Rightarrow> size_t \<Rightarrow> StackAllocator \<Rightarrow> op list \<Rightarrow> StackAllocator" where
  "run N alignment s ops = foldl (step N alignment) s ops"

section \<open>What the platform guarantees\<close>

text \<open>
  The class is instantiated with an alignment that is a power of two (\<^verbatim>\<open>alignas\<close>
  accepts nothing else).  The array \<^verbatim>\<open>buffer\<close> is an object of \<open>N\<close> bytes: its
  address is aligned as \<^verbatim>\<open>alignas(alignment)\<close> asks, it is not the null pointer, and
  the address one past its end exists, so \<open>buffer + N\<close> does not wrap around.
\<close>

definition power_of_two :: "size_t \<Rightarrow> bool" where
  "power_of_two a = (\<exists>k\<in>{0..<64}. a = 2 ^ k)"

definition arena_wf :: "size_t \<Rightarrow> size_t \<Rightarrow> StackAllocator \<Rightarrow> bool" where
  "arena_wf N alignment s =
     (power_of_two alignment \<and> isAligned alignment (buffer s) \<and> buffer s \<noteq> nullptr \<and>
      unat (buffer s) + unat N < 2 ^ 64)"

text \<open>
  The invariant of the cursor, \<^verbatim>\<open>used()\<close>: it is a multiple of the alignment, it is
  at most \<open>N\<close>, and it is not negative, that is \<^verbatim>\<open>pointer\<close> is not below
  \<^verbatim>\<open>buffer\<close>.
\<close>

definition cursor_inv :: "size_t \<Rightarrow> size_t \<Rightarrow> StackAllocator \<Rightarrow> bool" where
  "cursor_inv N alignment s =
     (unat alignment dvd unat (used s) \<and> unat (used s) \<le> unat N \<and> buffer s \<le> pointer s)"

text \<open>
  The words of the specification for rounding up: \<open>r\<close> is the smallest multiple of
  \<open>a\<close> that is at least \<open>n\<close>, over the natural numbers.
\<close>

definition smallest_multiple_ge :: "nat \<Rightarrow> nat \<Rightarrow> nat \<Rightarrow> bool" where
  "smallest_multiple_ge a n r = (a dvd r \<and> n \<le> r \<and> (\<forall>m\<in>{n..<r}. \<not> a dvd m))"


section \<open>Alignment arithmetic\<close>

text \<open>
  Facts about the two bit expressions of the class, read as natural numbers: masking with
  \<open>2 ^ k - 1\<close> is the remainder modulo \<open>2 ^ k\<close>, and clearing those bits rounds down
  to a multiple of \<open>2 ^ k\<close>.
\<close>

lemma unat_two_power:
  assumes "k < 64" shows "unat (2 ^ k :: 64 word) = 2 ^ k"
proof -
  have "(2 :: nat) ^ k < 2 ^ 64"
    using assms by (simp only: power_strict_increasing_iff) 
  moreover have "unat (2 ^ k :: 64 word) = unat (of_nat (2 ^ k) :: 64 word)"
    by simp
  ultimately show ?thesis
    by (simp only: unat_of_nat len_of_numeral_defs) simp
qed

lemma unat_and_low_bits: "unat ((x :: 64 word) AND (2 ^ k - 1)) = unat x mod 2 ^ k"
proof -
  have "unat (x AND (2 ^ k - 1)) = unat (take_bit k x)"
    by (simp only: take_bit_eq_mask mask_eq_exp_minus_1)
  also have "\<dots> = take_bit k (unat x)"
    by (simp only: unsigned_take_bit_eq)
  also have "\<dots> = unat x mod 2 ^ k"
    by (simp only: take_bit_eq_mod)
  finally show ?thesis .
qed

lemma isAligned_dvd: "isAligned (2 ^ k) p \<longleftrightarrow> 2 ^ k dvd unat p"
proof -
  have "isAligned (2 ^ k) p \<longleftrightarrow> unat (p AND (2 ^ k - 1)) = 0"
    by (simp add: isAligned_def unat_eq_0)
  then show ?thesis
    by (simp only: unat_and_low_bits mod_eq_0_iff_dvd)
qed

lemma split_low_bits: "((x :: 64 word) AND NOT m) + (x AND m) = x"
proof -
  have "(x AND NOT m) AND (x AND m) = 0"
    by (simp add: and.assoc and.left_commute)
  then have "(x AND NOT m) + (x AND m) = (x AND NOT m) OR (x AND m)"
    by (rule disjunctive_add_eq_or)
  also have "\<dots> = x"
    by (simp add: bit_eq_iff bit_simps) blast
  finally show ?thesis .
qed

lemma unat_clear_low_bits:
  "unat ((x :: 64 word) AND NOT (2 ^ k - 1)) = unat x - unat x mod 2 ^ k"
proof -
  have "x AND NOT (2 ^ k - 1) = x - (x AND (2 ^ k - 1))"
    using split_low_bits [of x "2 ^ k - 1"] by (simp add: algebra_simps)
  moreover have "x AND (2 ^ k - 1) \<le> x"
    by (rule word_and_le2)
  ultimately show ?thesis
    by (simp only: unat_sub unat_and_low_bits)
qed

lemma align_up_isAligned: "isAligned alignment (align_up alignment n)"
  by (simp add: isAligned_def align_up_def and.assoc)

lemma unat_align_up:
  assumes k: "k < 64" and nowrap: "unat n + (2 ^ k - 1) < 2 ^ 64"
  shows "unat (align_up (2 ^ k) n) = (unat n + (2 ^ k - 1)) div 2 ^ k * 2 ^ k"
proof -
  have "(2 ^ k :: 64 word) \<noteq> 0"
    using unat_two_power [OF k] by (metis power_not_zero unat_0 zero_neq_numeral)
  then have one: "unat (2 ^ k - 1 :: 64 word) = 2 ^ k - 1"
    using unat_two_power [OF k] unat_minus_one [of "2 ^ k :: 64 word"] by simp
  have "unat (n + (2 ^ k - 1)) = unat n + (2 ^ k - 1)"
    using nowrap one by (simp add: unat_add_lem [THEN iffD1])
  then have "unat (align_up (2 ^ k) n) = (unat n + (2 ^ k - 1)) - (unat n + (2 ^ k - 1)) mod 2 ^ k"
    by (simp only: align_up_def unat_clear_low_bits)
  then show ?thesis
    by (simp only: minus_mod_eq_div_mult)
qed

lemma round_up_smallest:
  fixes a n :: nat
  assumes a: "0 < a"
  shows "smallest_multiple_ge a n ((n + (a - 1)) div a * a)"
proof -
  define d where "d = n + (a - 1)"
  define r where "r = d div a * a"
  have r_eq: "r + d mod a = d"
    unfolding r_def by (rule div_mult_mod_eq)
  have "d mod a < a"
    using a by (rule mod_less_divisor)
  with r_eq have ge: "n \<le> r"
    unfolding d_def by linarith
  from r_eq have le: "r \<le> d"
    by linarith
  have none: "\<not> a dvd m" if m: "m \<in> {n..<r}" for m
  proof
    assume "a dvd m"
    then obtain q where q: "m = q * a"
      by (metis dvd_def mult.commute)
    from m have "m < r" and "n \<le> m"
      by simp_all
    from \<open>m < r\<close> have "q * a < d div a * a"
      unfolding q r_def .
    then have "q < d div a"
      by (rule mult_less_cancel2 [THEN iffD1, THEN conjunct2])
    then have "Suc q \<le> d div a"
      by (rule Suc_leI)
    then have "Suc q * a \<le> d div a * a"
      by (rule mult_le_mono1)
    then have "m + a \<le> r"
      unfolding q r_def by simp
    with le \<open>n \<le> m\<close> a show False
      unfolding d_def by linarith
  qed
  have "a dvd r"
    unfolding r_def by (rule dvd_triv_right)
  with ge none show ?thesis
    unfolding smallest_multiple_ge_def r_def d_def by blast
qed

section \<open>The cursor invariant is kept by every member function\<close>

text \<open>
  The proofs read addresses and sizes as natural numbers.  An object laid out as
  \<open>arena_wf\<close> says has \<open>buffer + N\<close> below \<open>2 ^ 64\<close>, so the range check of
  \<^verbatim>\<open>pointer_in_buffer\<close> is the comparison of the numbers, and a bump that fits the room
  left does not wrap.
\<close>

lemma power_of_twoE:
  assumes "power_of_two a"
  obtains k where "k < 64" and "a = 2 ^ k"
  using assms by (auto simp: power_of_two_def)

lemma power_of_two_dvd_word_size:
  assumes "power_of_two a"
  shows "unat a dvd 2 ^ 64"
proof -
  from assms obtain k where k: "k < 64" "a = 2 ^ k"
    by (rule power_of_twoE)
  then have "(2::nat) ^ k dvd 2 ^ 64"
    by (intro le_imp_power_dvd) simp
  then show ?thesis
    using k by (simp only: unat_two_power)
qed

lemma isAligned_unat_dvd:
  assumes "power_of_two a"
  shows "isAligned a p \<longleftrightarrow> unat a dvd unat p"
proof -
  from assms obtain k where k: "k < 64" "a = 2 ^ k"
    by (rule power_of_twoE)
  then show ?thesis
    by (simp only: isAligned_dvd unat_two_power)
qed

lemma align_up_unat_dvd:
  assumes "power_of_two a"
  shows "unat a dvd unat (align_up a n)"
  using assms align_up_isAligned [of a n] by (simp only: isAligned_unat_dvd)

lemma buffer_unat_dvd:
  assumes "arena_wf N alignment s"
  shows "unat alignment dvd unat (buffer s)"
proof -
  from assms have "power_of_two alignment" and "isAligned alignment (buffer s)"
    by (simp_all add: arena_wf_def)
  then show ?thesis
    by (simp only: isAligned_unat_dvd)
qed

lemma arena_wf_buffer:
  "buffer s' = buffer s \<Longrightarrow> arena_wf N alignment s' = arena_wf N alignment s"
  by (simp add: arena_wf_def)

lemma unat_buffer_end:
  assumes "arena_wf N alignment s"
  shows "unat (buffer s + N) = unat (buffer s) + unat N"
  using assms by (simp add: arena_wf_def unat_add_lem [THEN iffD1])

lemma pointer_in_buffer_unat:
  assumes "arena_wf N alignment s"
  shows "pointer_in_buffer N s p \<longleftrightarrow>
         unat (buffer s) \<le> unat p \<and> unat p \<le> unat (buffer s) + unat N"
  by (simp only: pointer_in_buffer_def word_le_nat_alt unat_buffer_end [OF assms])

lemma unat_pointer:
  assumes "cursor_inv N alignment s"
  shows "unat (pointer s) = unat (buffer s) + unat (used s)"
proof -
  from assms have le: "buffer s \<le> pointer s"
    by (simp add: cursor_inv_def)
  then have "unat (used s) = unat (pointer s) - unat (buffer s)"
    by (simp only: used_def unat_sub)
  moreover from le have "unat (buffer s) \<le> unat (pointer s)"
    by (simp only: word_le_nat_alt)
  ultimately show ?thesis
    by linarith
qed

lemma cursor_invI:
  assumes wf: "arena_wf N alignment s"
    and lo: "unat (buffer s) \<le> unat p"
    and hi: "unat p \<le> unat (buffer s) + unat N"
    and al: "unat alignment dvd unat p"
  shows "cursor_inv N alignment (s\<lparr>pointer := p\<rparr>)"
proof -
  from lo have le: "buffer s \<le> p"
    by (simp only: word_le_nat_alt)
  then have u: "unat (p - buffer s) = unat p - unat (buffer s)"
    by (simp only: unat_sub)
  from al buffer_unat_dvd [OF wf] have "unat alignment dvd unat p - unat (buffer s)"
    by (rule dvd_diff_nat)
  moreover from hi have "unat p - unat (buffer s) \<le> unat N"
    by linarith
  ultimately show ?thesis
    using le u by (simp add: cursor_inv_def used_def)
qed

lemma pointer_unat_dvd:
  assumes wf: "arena_wf N alignment s" and inv: "cursor_inv N alignment s"
  shows "unat alignment dvd unat (pointer s)"
proof -
  note buffer_unat_dvd [OF wf]
  moreover from inv have "unat alignment dvd unat (used s)"
    by (simp add: cursor_inv_def)
  ultimately show ?thesis
    by (simp only: unat_pointer [OF inv] dvd_add)
qed

lemma unat_room:
  assumes inv: "cursor_inv N alignment s"
  shows "unat (buffer s - pointer s + N) = unat N - unat (used s)"
proof -
  have "buffer s - pointer s + N = N - used s"
    by (simp add: used_def)
  moreover from inv have "used s \<le> N"
    by (simp add: cursor_inv_def word_le_nat_alt)
  ultimately show ?thesis
    by (simp only: unat_sub)
qed

lemma allocate_unfold:
  assumes inv: "cursor_inv N alignment s"
  shows "allocate N alignment ReqAlign s n =
           (if unat (align_up alignment n) \<le> unat N - unat (used s)
            then (pointer s, s\<lparr>pointer := pointer s + align_up alignment n\<rparr>)
            else (nullptr, s))"
  by (simp add: allocate_def Let_def word_le_nat_alt unat_room [OF inv])

lemma unat_bump:
  assumes wf: "arena_wf N alignment s" and inv: "cursor_inv N alignment s"
    and fits: "unat a \<le> unat N - unat (used s)"
  shows "unat (pointer s + a) = unat (pointer s) + unat a"
proof -
  from inv have "unat (used s) \<le> unat N"
    by (simp add: cursor_inv_def)
  with fits have "unat (pointer s) + unat a \<le> unat (buffer s) + unat N"
    by (simp only: unat_pointer [OF inv])
  also from wf have "\<dots> < 2 ^ 64"
    by (simp add: arena_wf_def)
  finally show ?thesis
    by (simp add: unat_add_lem [THEN iffD1])
qed

lemma bump_inv:
  assumes wf: "arena_wf N alignment s" and inv: "cursor_inv N alignment s"
    and fits: "unat (align_up alignment n) \<le> unat N - unat (used s)"
  shows "cursor_inv N alignment (s\<lparr>pointer := pointer s + align_up alignment n\<rparr>)"
proof (rule cursor_invI [OF wf])
  note u = unat_bump [OF wf inv fits]
  show "unat (buffer s) \<le> unat (pointer s + align_up alignment n)"
    by (simp only: u unat_pointer [OF inv])
  from inv have "unat (used s) \<le> unat N"
    by (simp add: cursor_inv_def)
  with fits show "unat (pointer s + align_up alignment n) \<le> unat (buffer s) + unat N"
    by (simp only: u unat_pointer [OF inv]; linarith)
  from wf have "power_of_two alignment"
    by (simp add: arena_wf_def)
  then show "unat alignment dvd unat (pointer s + align_up alignment n)"
    by (simp only: u dvd_add pointer_unat_dvd [OF wf inv] align_up_unat_dvd)
qed

lemma allocate_inv:
  assumes wf: "arena_wf N alignment s" and inv: "cursor_inv N alignment s"
  shows "cursor_inv N alignment (snd (allocate N alignment ReqAlign s n))"
  using inv bump_inv [OF wf inv] by (simp add: allocate_unfold [OF inv])

lemma deallocate_inv:
  assumes wf: "arena_wf N alignment s" and inv: "cursor_inv N alignment s"
  shows "cursor_inv N alignment (deallocate N alignment s p n)"
proof (cases "pointer_in_buffer N s p \<and> p + align_up alignment n = pointer s")
  case False
  then show ?thesis
    using inv by (auto simp: deallocate_def Let_def)
next
  case True
  then have range: "unat (buffer s) \<le> unat p" "unat p \<le> unat (buffer s) + unat N"
    by (simp_all only: pointer_in_buffer_unat [OF wf])
  from wf have p2: "power_of_two alignment"
    by (simp add: arena_wf_def)
  have "unat (p + align_up alignment n) = (unat p + unat (align_up alignment n)) mod 2 ^ 64"
    by (simp add: unat_word_ariths)
  with True have "unat (pointer s) = (unat p + unat (align_up alignment n)) mod 2 ^ 64"
    by simp
  then have "unat alignment dvd (unat p + unat (align_up alignment n)) mod 2 ^ 64"
    using pointer_unat_dvd [OF wf inv] by simp
  then have "unat alignment dvd unat p + unat (align_up alignment n)"
    by (simp only: dvd_mod_iff [OF power_of_two_dvd_word_size [OF p2]])
  then have "unat alignment dvd unat p"
    using align_up_unat_dvd [OF p2, of n] by (simp only: dvd_add_left_iff)
  with range have "cursor_inv N alignment (s\<lparr>pointer := p\<rparr>)"
    by (intro cursor_invI [OF wf])
  with True show ?thesis
    by (simp add: deallocate_def Let_def)
qed

lemma reset_inv:
  "cursor_inv N alignment (reset s)"
  by (simp add: cursor_inv_def reset_def used_def)

lemma resetToMarker_inv:
  assumes wf: "arena_wf N alignment s" and inv: "cursor_inv N alignment s"
  shows "cursor_inv N alignment (fst (resetToMarker N alignment s p))"
proof (cases "pointer_in_buffer N s p \<and> isAligned alignment p")
  case False
  then show ?thesis
    using inv by (auto simp: resetToMarker_def Let_def)
next
  case True
  from wf have p2: "power_of_two alignment"
    by (simp add: arena_wf_def)
  from True have "cursor_inv N alignment (s\<lparr>pointer := p\<rparr>)"
    by (intro cursor_invI [OF wf]) (simp_all only: pointer_in_buffer_unat [OF wf] isAligned_unat_dvd [OF p2])
  with True show ?thesis
    by (simp add: resetToMarker_def Let_def)
qed

lemma step_buffer: "buffer (step N alignment s c) = buffer s"
  by (cases c) (simp_all add: allocate_def deallocate_def resetToMarker_def reset_def Let_def)

lemma step_inv:
  assumes wf: "arena_wf N alignment s" and inv: "cursor_inv N alignment s"
  shows "cursor_inv N alignment (step N alignment s c)"
  by (cases c) (simp_all add: allocate_inv [OF wf inv] deallocate_inv [OF wf inv]
      resetToMarker_inv [OF wf inv] reset_inv inv)

lemma run_buffer: "buffer (run N alignment s cs) = buffer s"
  unfolding run_def by (induction cs arbitrary: s) (simp_all add: step_buffer)

lemma run_inv:
  assumes "arena_wf N alignment s" and "cursor_inv N alignment s"
  shows "cursor_inv N alignment (run N alignment s cs)"
  using assms unfolding run_def
proof (induction cs arbitrary: s)
  case Nil
  then show ?case by simp
next
  case (Cons c cs)
  have "arena_wf N alignment (step N alignment s c)"
    using Cons.prems(1) by (simp only: arena_wf_buffer [OF step_buffer])
  moreover have "cursor_inv N alignment (step N alignment s c)"
    using Cons.prems by (rule step_inv)
  ultimately show ?case
    using Cons.IH by simp
qed

lemma ctor_inv: "cursor_inv N alignment (StackAllocator_ctor b)"
  by (simp add: cursor_inv_def StackAllocator_ctor_def used_def)

section \<open>Returned pointers\<close>

lemma pointer_not_null:
  assumes wf: "arena_wf N alignment s" and inv: "cursor_inv N alignment s"
  shows "pointer s \<noteq> nullptr"
proof
  assume "pointer s = nullptr"
  then have "unat (pointer s) = 0"
    by (simp add: nullptr_def)
  then have "unat (buffer s) = 0"
    by (simp add: unat_pointer [OF inv])
  then have "buffer s = nullptr"
    by (simp add: nullptr_def unat_eq_0)
  with wf show False
    by (simp add: arena_wf_def)
qed

lemma pointer_is_cursor: "buffer s + used s = pointer s"
  by (simp add: used_def)

lemma pointer_in_range:
  assumes inv: "cursor_inv N alignment s"
  shows "unat (buffer s) \<le> unat (pointer s) \<and> unat (pointer s) \<le> unat (buffer s) + unat N"
  using inv by (simp add: unat_pointer [OF inv] cursor_inv_def)

lemma used_bump: "used (s\<lparr>pointer := pointer s + a\<rparr>) = used s + a"
  by (simp add: used_def)

lemma unat_used_bump:
  assumes inv: "cursor_inv N alignment s" and fits: "unat a \<le> unat N - unat (used s)"
  shows "unat (used s + a) = unat (used s) + unat a"
proof -
  from inv have "unat (used s) \<le> unat N"
    by (simp add: cursor_inv_def)
  with fits have "unat (used s) + unat a \<le> unat N"
    by linarith
  also have "unat N < 2 ^ 64"
    using unsigned_less [of N] by simp
  finally show ?thesis
    by (simp add: unat_add_lem [THEN iffD1])
qed

section \<open>Rounding up over the natural numbers\<close>

lemma unat_power_of_two_pos:
  assumes "power_of_two a"
  shows "0 < unat a"
proof -
  from assms obtain k where "k < 64" "a = 2 ^ k"
    by (rule power_of_twoE)
  then show ?thesis
    by (simp only: unat_two_power) simp
qed

lemma align_up_rounds_up:
  assumes p2: "power_of_two alignment"
    and nowrap: "unat n + (unat alignment - 1) < 2 ^ 64"
  shows "smallest_multiple_ge (unat alignment) (unat n) (unat (align_up alignment n))"
proof -
  from p2 obtain k where k: "k < 64" and a: "alignment = 2 ^ k"
    by (rule power_of_twoE)
  from nowrap have "unat n + (2 ^ k - 1) < 2 ^ 64"
    by (simp only: a unat_two_power [OF k])
  then have "unat (align_up (2 ^ k) n) = (unat n + (2 ^ k - 1)) div 2 ^ k * 2 ^ k"
    by (rule unat_align_up [OF k])
  moreover have "smallest_multiple_ge (2 ^ k) (unat n) ((unat n + (2 ^ k - 1)) div 2 ^ k * 2 ^ k)"
    by (rule round_up_smallest) simp
  ultimately show ?thesis
    by (simp only: a unat_two_power [OF k])
qed

lemma multiple_below_word_size:
  assumes p2: "power_of_two alignment" and dvd: "unat alignment dvd unat (r :: size_t)"
  shows "unat r + unat alignment \<le> 2 ^ 64"
proof -
  have lt: "unat r < 2 ^ 64"
    using unsigned_less [of r] by simp
  from power_of_two_dvd_word_size [OF p2] dvd have "unat alignment dvd 2 ^ 64 - unat r"
    by (rule dvd_diff_nat)
  moreover from lt have "0 < (2::nat) ^ 64 - unat r"
    by linarith
  ultimately have "unat alignment \<le> 2 ^ 64 - unat r"
    by (rule dvd_imp_le)
  with lt show ?thesis
    by linarith
qed

lemma align_up_wrapped:
  assumes p2: "power_of_two alignment"
    and sm: "smallest_multiple_ge (unat alignment) (unat n) (unat (align_up alignment n))"
  shows "unat n + (unat alignment - 1) < 2 ^ 64"
proof -
  from sm have "unat n \<le> unat (align_up alignment n)"
    by (simp add: smallest_multiple_ge_def)
  moreover have "unat (align_up alignment n) + unat alignment \<le> 2 ^ 64"
    using p2 align_up_unat_dvd [OF p2] by (rule multiple_below_word_size)
  ultimately show ?thesis
    using unat_power_of_two_pos [OF p2] by linarith
qed

lemma align_up_le_capacity:
  assumes p2: "power_of_two alignment" and dvd: "unat alignment dvd unat N" and le: "n \<le> N"
  shows "unat (align_up alignment n) \<le> unat N"
proof (rule ccontr)
  assume "\<not> unat (align_up alignment n) \<le> unat N"
  moreover from le have nN: "unat n \<le> unat N"
    by (simp only: word_le_nat_alt)
  ultimately have mem: "unat N \<in> {unat n..<unat (align_up alignment n)}"
    by simp
  have "unat N + unat alignment \<le> 2 ^ 64"
    using p2 dvd by (rule multiple_below_word_size)
  with nN have "unat n + (unat alignment - 1) < 2 ^ 64"
    using unat_power_of_two_pos [OF p2] by linarith
  with p2 have "smallest_multiple_ge (unat alignment) (unat n) (unat (align_up alignment n))"
    by (rule align_up_rounds_up)
  then have "\<forall>m\<in>{unat n..<unat (align_up alignment n)}. \<not> unat alignment dvd m"
    by (simp add: smallest_multiple_ge_def)
  with mem dvd show False
    by blast
qed

section \<open>Markers and the last allocation\<close>

lemma align_up_zero: "align_up alignment 0 = 0"
  by (simp add: align_up_def)

lemma marker_restores:
  assumes wf: "arena_wf N alignment s" and inv: "cursor_inv N alignment s"
    and same: "buffer s' = buffer s"
  shows "fst (resetToMarker N alignment s' (pointer s)) = s'\<lparr>pointer := pointer s\<rparr>"
proof -
  from wf have p2: "power_of_two alignment"
    by (simp add: arena_wf_def)
  have "pointer_in_buffer N s (pointer s)"
    using pointer_in_range [OF inv] by (simp only: pointer_in_buffer_unat [OF wf])
  then have "pointer_in_buffer N s' (pointer s)"
    by (simp add: pointer_in_buffer_def same)
  moreover have "isAligned alignment (pointer s)"
    using pointer_unat_dvd [OF wf inv] by (simp only: isAligned_unat_dvd [OF p2])
  ultimately show ?thesis
    by (simp add: resetToMarker_def)
qed

lemma run_allocations:
  assumes "arena_wf N alignment s" and "cursor_inv N alignment s"
    and "sum_list (map (\<lambda>r. unat (align_up alignment (snd r))) reqs) \<le> unat N - unat (used s)"
  shows "unat (used (run N alignment s (map (\<lambda>r. Allocate (fst r) (snd r)) reqs))) =
         unat (used s) + sum_list (map (\<lambda>r. unat (align_up alignment (snd r))) reqs)"
  using assms
proof (induction reqs arbitrary: s)
  case Nil
  then show ?case
    by (simp add: run_def)
next
  case (Cons r reqs)
  let ?a = "align_up alignment (snd r)"
  let ?rest = "sum_list (map (\<lambda>r. unat (align_up alignment (snd r))) reqs)"
  let ?s1 = "s\<lparr>pointer := pointer s + ?a\<rparr>"
  from Cons.prems(3) have total: "unat ?a + ?rest \<le> unat N - unat (used s)"
    by simp
  then have fits: "unat ?a \<le> unat N - unat (used s)"
    by linarith
  have s1: "step N alignment s (Allocate (fst r) (snd r)) = ?s1"
    using fits by (simp add: allocate_unfold [OF Cons.prems(2)])
  have u1: "unat (used ?s1) = unat (used s) + unat ?a"
    using unat_used_bump [OF Cons.prems(2) fits] by (simp only: used_bump)
  have wf1: "arena_wf N alignment ?s1"
    using Cons.prems(1) by (simp add: arena_wf_def)
  have inv1: "cursor_inv N alignment ?s1"
    using Cons.prems(1,2) fits by (rule bump_inv)
  from total have "?rest \<le> unat N - unat (used ?s1)"
    by (simp only: u1; linarith)
  with wf1 inv1
  have "unat (used (run N alignment ?s1 (map (\<lambda>r. Allocate (fst r) (snd r)) reqs))) =
        unat (used ?s1) + ?rest"
    by (rule Cons.IH)
  moreover have "run N alignment s (map (\<lambda>r. Allocate (fst r) (snd r)) (r # reqs)) =
                 run N alignment ?s1 (map (\<lambda>r. Allocate (fst r) (snd r)) reqs)"
    using s1 by (simp add: run_def)
  ultimately show ?case
    by (simp add: u1)
qed

text \<open>
  \<^verbatim>\<open>deallocate\<close> with its range check read on the addresses as numbers; the sum is
  the wrapping one of the code.
\<close>

lemma deallocate_as_computed:
  assumes wf: "arena_wf N alignment s"
  shows "deallocate N alignment s p n =
           (if unat p < unat (buffer s) \<or> unat (buffer s) + unat N < unat p then s
            else if p + align_up alignment n = pointer s then s\<lparr>pointer := p\<rparr>
            else s)"
  by (auto simp: deallocate_def Let_def pointer_in_buffer_unat [OF wf])

lemma deallocate_top:
  assumes wf: "arena_wf N alignment s" and inv: "cursor_inv N alignment s"
  shows "deallocate N alignment (s\<lparr>pointer := pointer s + align_up alignment n\<rparr>) (pointer s) n = s"
proof -
  have "pointer_in_buffer N s (pointer s)"
    using pointer_in_range [OF inv] by (simp only: pointer_in_buffer_unat [OF wf])
  then show ?thesis
    by (simp add: deallocate_def pointer_in_buffer_def)
qed

text \<open>
  The output statement of \<^verbatim>\<open>resetToMarker\<close> is reached on both branches: the line is
  written whether or not the marker was accepted.
\<close>

lemma resetToMarker_always_writes:
  "snd (resetToMarker N alignment s m) = [(''The pointer provided is not aligned: '', m)]"
  by (simp add: resetToMarker_def Let_def)

text \<open>
  When \<open>p + align_up n\<close> does not wrap around, \<^verbatim>\<open>deallocate\<close> can only lower the
  cursor.
\<close>

lemma deallocate_not_above_nowrap:
  assumes wf: "arena_wf N alignment s" and inv: "cursor_inv N alignment s"
    and nowrap: "unat p + unat (align_up alignment n) < 2 ^ 64"
  shows "used (deallocate N alignment s p n) \<le> used s"
proof (cases "pointer_in_buffer N s p \<and> p + align_up alignment n = pointer s")
  case False
  then show ?thesis
    by (auto simp: deallocate_def Let_def)
next
  case True
  then have eq: "deallocate N alignment s p n = s\<lparr>pointer := p\<rparr>"
    by (simp add: deallocate_def)
  from True have lo: "buffer s \<le> p"
    by (simp add: pointer_in_buffer_def)
  from nowrap have "unat (p + align_up alignment n) = unat p + unat (align_up alignment n)"
    by (simp add: unat_add_lem [THEN iffD1])
  with True have "unat p \<le> unat (pointer s)"
    by simp
  then have "unat p - unat (buffer s) \<le> unat (pointer s) - unat (buffer s)"
    by (rule diff_le_mono)
  moreover from inv have "buffer s \<le> pointer s"
    by (simp add: cursor_inv_def)
  ultimately show ?thesis
    using lo by (simp add: eq used_def word_le_nat_alt unat_sub)
qed

section \<open>A concrete object\<close>

text \<open>
  \<^verbatim>\<open>StackAllocator<64, 8>\<close> with its buffer at address 4096, the arena of the
  specification's scenarios.
\<close>

lemma example_power_of_two: "power_of_two 8"
  unfolding power_of_two_def by (rule bexI [of _ 3]) simp_all

lemma example_wf: "arena_wf 64 8 (StackAllocator_ctor 4096)"
  by (simp add: arena_wf_def example_power_of_two isAligned_def StackAllocator_ctor_def nullptr_def)

section \<open>The claims of the specification\<close>

subsection \<open>Allocation\<close>



subsection \<open>Deallocation\<close>

text \<open>
  Claim C2 says that \<^verbatim>\<open>deallocate(p, n)\<close> leaves the object alone unless \<open>p\<close> lies in
  the buffer and \<open>p + align_up n\<close> is the cursor, and that it then rewinds the cursor to
  \<open>p\<close>.  The code takes the sum with the addition of the machine and does not check
  that \<open>p\<close> is at or below \<^verbatim>\<open>pointer\<close>.  In a fresh \<^verbatim>\<open>StackAllocator<64, 8>\<close>, the
  call \<^verbatim>\<open>deallocate(buffer + 8, SIZE_MAX - 7)\<close> finds \<open>buffer + 8\<close> inside the buffer;
  as numbers \<open>p + align_up n\<close> is far above the cursor, so by the claim the call does
  nothing, but the wrapped sum is \<^verbatim>\<open>buffer\<close>, which is \<^verbatim>\<open>pointer\<close>, and the code sets
  \<^verbatim>\<open>pointer\<close> to \<open>buffer + 8\<close>: the cursor is moved forward, from 0 to 8, not rewound.
\<close>

theorem deallocate_wrapped_match:
  "arena_wf 64 8 (StackAllocator_ctor 4096) \<and>
   cursor_inv 64 8 (StackAllocator_ctor 4096) \<and>
   used (StackAllocator_ctor 4096) = 0 \<and>
   pointer_in_buffer 64 (StackAllocator_ctor 4096) 4104 \<and>
   align_up 8 18446744073709551608 = 18446744073709551608 \<and>
   unat (4104 :: char_ptr) + unat (align_up 8 18446744073709551608) \<noteq>
     unat (pointer (StackAllocator_ctor 4096)) \<and>
   deallocate 64 8 (StackAllocator_ctor 4096) 4104 18446744073709551608 =
     \<lparr>buffer = 4096, pointer = 4104\<rparr> \<and>
   used \<lparr>buffer = 4096, pointer = 4104\<rparr> = 8 \<and>
   pointer (StackAllocator_ctor 4096) <
     pointer (deallocate 64 8 (StackAllocator_ctor 4096) 4104 18446744073709551608)"
  using example_wf ctor_inv [of 64 8 4096]
  by (simp add: deallocate_def align_up_def pointer_in_buffer_def StackAllocator_ctor_def
      used_def)

subsection \<open>Markers\<close>

text \<open>
  Claim C3.  \<^verbatim>\<open>resetToMarker(m)\<close>: when the address \<open>m\<close> lies in
  \<open>[buffer, buffer + N]\<close> and is a multiple of the alignment, the \<^verbatim>\<open>pointer\<close>
  becomes \<open>m\<close>; when one of the two checks fails, the object is unchanged and the line
  \<^verbatim>\<open>The pointer provided is not aligned: \<close> followed by \<open>m\<close> is written to the
  standard error stream.
\<close>

theorem resetToMarker_checked:
  assumes wf: "arena_wf N alignment s"
  shows "(if unat (buffer s) \<le> unat m \<and> unat m \<le> unat (buffer s) + unat N \<and>
             unat alignment dvd unat m
          then fst (resetToMarker N alignment s m) = s\<lparr>pointer := m\<rparr>
          else fst (resetToMarker N alignment s m) = s \<and>
               snd (resetToMarker N alignment s m) = [(''The pointer provided is not aligned: '', m)])"
proof -
  from wf have "power_of_two alignment"
    by (simp add: arena_wf_def)
  then show ?thesis
    by (simp add: resetToMarker_def Let_def pointer_in_buffer_unat [OF wf] isAligned_unat_dvd)
qed

theorem resetToMarker_checked_witness:
  "arena_wf 64 8 (StackAllocator_ctor 4096) \<and>
   fst (resetToMarker 64 8 (StackAllocator_ctor 4096) 4112) = \<lparr>buffer = 4096, pointer = 4112\<rparr> \<and>
   resetToMarker 64 8 (StackAllocator_ctor 4096) 4100 =
     (StackAllocator_ctor 4096, [(''The pointer provided is not aligned: '', 4100)])"
  using resetToMarker_checked [OF example_wf, of 4112] resetToMarker_checked [OF example_wf, of 4100]
    example_wf
  by (simp add: resetToMarker_def StackAllocator_ctor_def pointer_in_buffer_def isAligned_def)

subsection \<open>The invariant in every reachable state\<close>

text \<open>
  Claim C4.  For an alignment that is a power of two and a buffer laid out as the
  platform guarantees, every state reached from the constructed object by calls of
  \<^verbatim>\<open>allocate\<close>, \<^verbatim>\<open>deallocate\<close>, \<^verbatim>\<open>getCurrentMarker\<close>, \<^verbatim>\<open>resetToMarker\<close> and
  \<^verbatim>\<open>reset\<close>, with any arguments, satisfies the invariant (the cursor is a multiple of
  the alignment, at most \<open>N\<close>, and not negative), and so does the state after one more
  call.
\<close>

theorem cursor_inv_reachable:
  assumes wf: "arena_wf N alignment (StackAllocator_ctor b)"
  shows "cursor_inv N alignment (run N alignment (StackAllocator_ctor b) cs) \<and>
         cursor_inv N alignment (step N alignment (run N alignment (StackAllocator_ctor b) cs) c)"
proof -
  have inv: "cursor_inv N alignment (run N alignment (StackAllocator_ctor b) cs)"
    using wf ctor_inv by (rule run_inv)
  have "arena_wf N alignment (run N alignment (StackAllocator_ctor b) cs)"
    using wf by (simp only: arena_wf_buffer [OF run_buffer])
  then have "cursor_inv N alignment (step N alignment (run N alignment (StackAllocator_ctor b) cs) c)"
    using inv by (rule step_inv)
  with inv show ?thesis ..
qed

theorem cursor_inv_reachable_witness:
  "arena_wf 64 8 (StackAllocator_ctor 4096) \<and>
   cursor_inv 64 8 (run 64 8 (StackAllocator_ctor 4096)
     [Allocate 1 3, GetCurrentMarker, Allocate 8 40, Deallocate 4104 40, Allocate 8 100,
      ResetToMarker 4104, Reset]) \<and>
   cursor_inv 64 8 (step 64 8 (run 64 8 (StackAllocator_ctor 4096)
     [Allocate 1 3, GetCurrentMarker, Allocate 8 40, Deallocate 4104 40, Allocate 8 100,
      ResetToMarker 4104, Reset]) (Allocate 8 64))"
  using cursor_inv_reachable [OF example_wf,
      of "[Allocate 1 3, GetCurrentMarker, Allocate 8 40, Deallocate 4104 40, Allocate 8 100,
           ResetToMarker 4104, Reset]" "Allocate 8 64"] example_wf
  by blast

subsection \<open>Rounding up\<close>

text \<open>
  Claim C5, amended.  For an alignment that is a power of two, \<open>align_up n\<close> is the
  smallest multiple of the alignment that is at least \<open>n\<close> exactly when
  \<open>n + (alignment - 1)\<close> does not exceed the largest \<^verbatim>\<open>size_t\<close>, \<open>2 ^ 64 - 1\<close>.  For
  the larger \<open>n\<close> the sum wraps around, and no \<^verbatim>\<open>size_t\<close> is the multiple asked for.
\<close>

theorem align_up_smallest_multiple:
  assumes "power_of_two alignment"
  shows "smallest_multiple_ge (unat alignment) (unat n) (unat (align_up alignment n)) \<longleftrightarrow>
         unat n + (unat alignment - 1) < 2 ^ 64"
  using assms by (blast intro: align_up_rounds_up align_up_wrapped)

theorem align_up_smallest_multiple_witness:
  "power_of_two 8 \<and> align_up 8 9 = 16 \<and>
   smallest_multiple_ge (unat (8 :: size_t)) (unat (9 :: size_t)) (unat (align_up 8 9))"
proof -
  have "align_up 8 9 = 16"
    by (simp add: align_up_def)
  moreover have "unat (9 :: size_t) + (unat (8 :: size_t) - 1) < 2 ^ 64"
    by simp
  ultimately show ?thesis
    using align_up_smallest_multiple [OF example_power_of_two, of 9] example_power_of_two
    by blast
qed

text \<open>
  The claim as stated fails at the largest \<^verbatim>\<open>size_t\<close> with alignment 8: the sum wraps
  to 6 and the result is 0.
\<close>

theorem align_up_wraps_counterexample:
  "power_of_two 8 \<and> align_up 8 18446744073709551615 = 0 \<and>
   \<not> smallest_multiple_ge (unat (8 :: size_t)) (unat (18446744073709551615 :: size_t))
        (unat (align_up 8 18446744073709551615))"
  using example_power_of_two by (simp add: align_up_def smallest_multiple_ge_def)

subsection \<open>Reset\<close>

text \<open>
  Claim C6, amended.  After \<^verbatim>\<open>reset()\<close> the value of \<^verbatim>\<open>used()\<close> is 0, and the next
  \<^verbatim>\<open>allocate(n)\<close> succeeds exactly when \<open>align_up n\<close> is at most \<open>N\<close>; so it succeeds
  for every \<open>n\<close> up to \<open>N\<close> when \<open>N\<close> is a multiple of the alignment.
\<close>

theorem reset_then_allocate:
  assumes wf: "arena_wf N alignment s"
  shows "used (reset s) = 0 \<and>
         (fst (allocate N alignment ReqAlign (reset s) n) \<noteq> nullptr \<longleftrightarrow>
            unat (align_up alignment n) \<le> unat N) \<and>
         (unat alignment dvd unat N \<and> n \<le> N \<longrightarrow>
            fst (allocate N alignment ReqAlign (reset s) n) \<noteq> nullptr)"
proof -
  have u: "used (reset s) = 0"
    by (simp add: reset_def used_def)
  have wf': "arena_wf N alignment (reset s)"
    using wf by (simp add: arena_wf_def reset_def)
  have inv': "cursor_inv N alignment (reset s)"
    by (rule reset_inv)
  from wf have p2: "power_of_two alignment"
    by (simp add: arena_wf_def)
  have iff: "fst (allocate N alignment ReqAlign (reset s) n) \<noteq> nullptr \<longleftrightarrow>
             unat (align_up alignment n) \<le> unat N"
    using pointer_not_null [OF wf' inv'] by (simp add: allocate_unfold [OF inv'] u)
  moreover have "unat (align_up alignment n) \<le> unat N" if "unat alignment dvd unat N \<and> n \<le> N"
    using that align_up_le_capacity [OF p2] by blast
  ultimately show ?thesis
    using u by blast
qed

theorem reset_then_allocate_witness:
  "arena_wf 64 8 (StackAllocator_ctor 4096) \<and> unat (8 :: size_t) dvd unat (64 :: size_t) \<and>
   (64 :: size_t) \<le> 64 \<and> used (reset (StackAllocator_ctor 4096)) = 0 \<and>
   fst (allocate 64 8 8 (reset (StackAllocator_ctor 4096)) 64) \<noteq> nullptr"
  using reset_then_allocate [OF example_wf, of 8 64] example_wf
  by simp

text \<open>
  The claim as stated fails for \<^verbatim>\<open>StackAllocator<10, 8>\<close>: a request of 10 bytes is
  padded to 16, more than the capacity, and the empty arena refuses it.
\<close>

theorem reset_then_allocate_counterexample:
  "arena_wf 10 8 (StackAllocator_ctor 4096) \<and> (10 :: size_t) \<le> 10 \<and>
   used (reset (StackAllocator_ctor 4096)) = 0 \<and>
   allocate 10 8 8 (reset (StackAllocator_ctor 4096)) 10 = (nullptr, reset (StackAllocator_ctor 4096))"
  using example_power_of_two
  by (simp add: arena_wf_def isAligned_def StackAllocator_ctor_def nullptr_def reset_def used_def
      allocate_def align_up_def)

subsection \<open>Rolling back to a marker\<close>

text \<open>
  Claim C7.  Let \<open>m\<close> be what \<^verbatim>\<open>getCurrentMarker()\<close> returns in a state that satisfies
  the invariant, and let any list of allocations follow whose padded sizes add up to at
  most \<open>N - used\<close> of that state.  Then every one of them is served, the cursor has
  advanced by the sum, and \<^verbatim>\<open>resetToMarker(m)\<close> brings \<^verbatim>\<open>used()\<close> back to the value
  it had when \<open>m\<close> was taken.
\<close>

theorem marker_rollback:
  assumes wf: "arena_wf N alignment s" and inv: "cursor_inv N alignment s"
    and m: "m = getCurrentMarker s"
    and total: "sum_list (map (\<lambda>r. unat (align_up alignment (snd r))) reqs)
                  \<le> unat N - unat (used s)"
  shows "unat (used (run N alignment s (map (\<lambda>r. Allocate (fst r) (snd r)) reqs))) =
           unat (used s) + sum_list (map (\<lambda>r. unat (align_up alignment (snd r))) reqs) \<and>
         used (fst (resetToMarker N alignment
                 (run N alignment s (map (\<lambda>r. Allocate (fst r) (snd r)) reqs)) m)) = used s"
proof -
  let ?s' = "run N alignment s (map (\<lambda>r. Allocate (fst r) (snd r)) reqs)"
  have same: "buffer ?s' = buffer s"
    by (rule run_buffer)
  have "fst (resetToMarker N alignment ?s' m) = ?s'\<lparr>pointer := pointer s\<rparr>"
    unfolding m getCurrentMarker_def using wf inv same by (rule marker_restores)
  then have "used (fst (resetToMarker N alignment ?s' m)) = used s"
    by (simp add: used_def same)
  with run_allocations [OF wf inv total] show ?thesis ..
qed

theorem marker_rollback_witness:
  "arena_wf 64 8 \<lparr>buffer = 4096, pointer = 4112\<rparr> \<and>
   cursor_inv 64 8 \<lparr>buffer = 4096, pointer = 4112\<rparr> \<and>
   getCurrentMarker \<lparr>buffer = 4096, pointer = 4112\<rparr> = 4112 \<and>
   unat (used (run 64 8 \<lparr>buffer = 4096, pointer = 4112\<rparr> [Allocate 8 24])) = 40 \<and>
   used (fst (resetToMarker 64 8 (run 64 8 \<lparr>buffer = 4096, pointer = 4112\<rparr> [Allocate 8 24]) 4112)) = 16"
proof -
  let ?s = "\<lparr>buffer = 4096, pointer = 4112\<rparr> :: StackAllocator"
  have wf: "arena_wf 64 8 ?s"
    using example_wf by (simp add: arena_wf_def StackAllocator_ctor_def)
  have inv: "cursor_inv 64 8 ?s"
    by (simp add: cursor_inv_def used_def)
  have m: "4112 = getCurrentMarker ?s"
    by (simp add: getCurrentMarker_def)
  have total: "sum_list (map (\<lambda>r. unat (align_up 8 (snd r))) [(8 :: size_t, 24 :: size_t)])
                 \<le> unat (64 :: size_t) - unat (used ?s)"
    by (simp add: align_up_def used_def)
  show ?thesis
    using marker_rollback [OF wf inv m total] wf inv m
    by (simp add: align_up_def used_def)
qed

subsection \<open>Freeing the last allocation\<close>

text \<open>
  Claim C8.  When \<^verbatim>\<open>allocate(n)\<close> succeeds and returns \<open>p\<close>, an immediate
  \<^verbatim>\<open>deallocate(p, n)\<close> brings \<^verbatim>\<open>used()\<close> back to its value before the allocation,
  and the next \<^verbatim>\<open>allocate(n)\<close> returns the same \<open>p\<close>.
\<close>

theorem lifo_free:
  assumes wf: "arena_wf N alignment s" and inv: "cursor_inv N alignment s"
    and alloc: "allocate N alignment ReqAlign s n = (p, s1)"
    and ok: "p \<noteq> nullptr"
  shows "used (deallocate N alignment s1 p n) = used s \<and>
         fst (allocate N alignment ReqAlign (deallocate N alignment s1 p n) n) = p"
proof -
  from alloc ok have fits: "unat (align_up alignment n) \<le> unat N - unat (used s)"
    by (simp add: allocate_unfold [OF inv] split: if_splits)
  with alloc have p: "p = pointer s" and s1: "s1 = s\<lparr>pointer := pointer s + align_up alignment n\<rparr>"
    by (auto simp: allocate_unfold [OF inv])
  have undo: "deallocate N alignment s1 p n = s"
    unfolding p s1 using wf inv by (rule deallocate_top)
  show ?thesis
    using alloc by (simp add: undo)
qed

theorem lifo_free_witness:
  "arena_wf 64 8 (StackAllocator_ctor 4096) \<and> cursor_inv 64 8 (StackAllocator_ctor 4096) \<and>
   allocate 64 8 8 (StackAllocator_ctor 4096) 8 = (4096, \<lparr>buffer = 4096, pointer = 4104\<rparr>) \<and>
   (4096 :: char_ptr) \<noteq> nullptr \<and>
   used (deallocate 64 8 \<lparr>buffer = 4096, pointer = 4104\<rparr> 4096 8) = used (StackAllocator_ctor 4096) \<and>
   fst (allocate 64 8 8 (deallocate 64 8 \<lparr>buffer = 4096, pointer = 4104\<rparr> 4096 8) 8) = 4096"
proof -
  have alloc: "allocate 64 8 8 (StackAllocator_ctor 4096) 8 = (4096, \<lparr>buffer = 4096, pointer = 4104\<rparr>)"
    by (simp add: allocate_def StackAllocator_ctor_def align_up_def)
  have ok: "(4096 :: char_ptr) \<noteq> nullptr"
    by (simp add: nullptr_def)
  show ?thesis
    using lifo_free [OF example_wf ctor_inv alloc ok] example_wf ctor_inv [of 64 8 4096] alloc ok
    by blast
qed

subsection \<open>Requests of size zero\<close>

text \<open>
  Claim C9.  In every state that satisfies the invariant, \<^verbatim>\<open>allocate(0)\<close> succeeds: it
  returns the address of the cursor, \<open>buffer + used\<close>, which is not the null pointer and
  lies in \<open>[buffer, buffer + N]\<close>, and it leaves the object, so \<^verbatim>\<open>used()\<close>, unchanged.
\<close>

theorem allocate_zero:
  assumes wf: "arena_wf N alignment s" and inv: "cursor_inv N alignment s"
  shows "allocate N alignment ReqAlign s 0 = (buffer s + used s, s) \<and>
         buffer s + used s \<noteq> nullptr \<and>
         unat (buffer s) \<le> unat (buffer s + used s) \<and>
         unat (buffer s + used s) \<le> unat (buffer s) + unat N"
  using pointer_not_null [OF wf inv] pointer_in_range [OF inv]
  by (simp add: allocate_unfold [OF inv] align_up_zero pointer_is_cursor)

theorem allocate_zero_witness:
  "arena_wf 64 8 \<lparr>buffer = 4096, pointer = 4160\<rparr> \<and>
   cursor_inv 64 8 \<lparr>buffer = 4096, pointer = 4160\<rparr> \<and>
   used \<lparr>buffer = 4096, pointer = 4160\<rparr> = 64 \<and>
   allocate 64 8 1 \<lparr>buffer = 4096, pointer = 4160\<rparr> 0 = (4160, \<lparr>buffer = 4096, pointer = 4160\<rparr>)"
proof -
  let ?s = "\<lparr>buffer = 4096, pointer = 4160\<rparr> :: StackAllocator"
  have wf: "arena_wf 64 8 ?s"
    using example_wf by (simp add: arena_wf_def StackAllocator_ctor_def)
  have inv: "cursor_inv 64 8 ?s"
    by (simp add: cursor_inv_def used_def)
  show ?thesis
    using allocate_zero [OF wf inv, of 1] wf inv
    by (simp add: used_def)
qed

subsection \<open>A deallocation that moves the cursor forward\<close>

text \<open>
  Claim C10 says that \<^verbatim>\<open>deallocate\<close> never increases \<^verbatim>\<open>used()\<close>.  The code compares
  \<open>p + align_up n\<close> with \<^verbatim>\<open>pointer\<close> and does not check that the sum stays above
  \<open>p\<close>.  In \<^verbatim>\<open>StackAllocator<64, 8>\<close> after one allocation of 8 bytes, the call
  \<^verbatim>\<open>deallocate(buffer + 16, SIZE_MAX - 7)\<close> finds \<open>buffer + 16\<close> inside the buffer and
  the wrapped sum equal to \<^verbatim>\<open>pointer\<close>, and sets \<^verbatim>\<open>pointer\<close> to \<open>buffer + 16\<close>:
  \<^verbatim>\<open>used()\<close> goes from 8 to 16.
\<close>

theorem deallocate_advances_cursor:
  "arena_wf 64 8 (StackAllocator_ctor 4096) \<and>
   run 64 8 (StackAllocator_ctor 4096) [Allocate 8 8] = \<lparr>buffer = 4096, pointer = 4104\<rparr> \<and>
   used \<lparr>buffer = 4096, pointer = 4104\<rparr> = 8 \<and>
   pointer_in_buffer 64 \<lparr>buffer = 4096, pointer = 4104\<rparr> 4112 \<and>
   align_up 8 18446744073709551608 = 18446744073709551608 \<and>
   deallocate 64 8 \<lparr>buffer = 4096, pointer = 4104\<rparr> 4112 18446744073709551608 =
     \<lparr>buffer = 4096, pointer = 4112\<rparr> \<and>
   used \<lparr>buffer = 4096, pointer = 4112\<rparr> = 16"
  using example_wf
  by (simp add: run_def allocate_def deallocate_def align_up_def pointer_in_buffer_def
      StackAllocator_ctor_def used_def)

end
